theory Spec2Isabelle
  imports Main
begin

section \<open>GPIO ports over sysfs control files (gopi-sysfs)\<close>

text \<open>
  The port code (\<^verbatim>\<open>gport\<close> and its methods) talks to the kernel through a handful of file
  helpers and timers. The embedding passes an explicit state through every operation: the
  outside world (the control files), a clock, the port's list of resetters, the channels
  of the streams started so far, and a log of what the port has done. The mutex of a port
  serialises its methods, so every method is one atomic state transformer. The calls of
  \<^verbatim>\<open>info\<close> only print and are left out, and so are \<^verbatim>\<open>String\<close> and \<^verbatim>\<open>State\<close>, which only
  format text.
\<close>

subsection \<open>Errors\<close>

datatype error =
    ErrPermission string
  | ErrOS string
  | ErrAwaitTimeout string
  | ErrNotEnabled int
  | ErrEnableTimeout string string
  | ErrModeNotExist

text \<open>
  \<^verbatim>\<open>ErrPermission\<close> and \<^verbatim>\<open>ErrOS\<close> are the errors of the operating system, split by what
  \<^verbatim>\<open>os.IsPermission\<close> answers. The others are built by the package:
  \<^verbatim>\<open>ErrNotEnabled port\<close> is \<^verbatim>\<open>fmt.Errorf("GPIO %v is not enabled", p.port)\<close>,
  \<^verbatim>\<open>ErrEnableTimeout sport fname\<close> is
  \<^verbatim>\<open>fmt.Errorf("Timed out enabling GPIO %v - %v not yet writable", p.sport, fname)\<close>,
  \<^verbatim>\<open>ErrModeNotExist\<close> is \<^verbatim>\<open>fmt.Errorf("GPIOMode %v does not exist")\<close>, and
  \<^verbatim>\<open>ErrAwaitTimeout path\<close> is the timeout of the file waiter.
\<close>

fun IsPermission :: "error \<Rightarrow> bool" where
  "IsPermission (ErrPermission m) = True"
| "IsPermission e = False"


subsection \<open>The port\<close>

record gport =
  port :: int
  sport :: string
  folder :: string
  valuefile :: string
  direction :: string
  edge :: string
  export :: string
  unexport :: string

subsection \<open>The file helpers and the state\<close>

text \<open>
  The helpers \<^verbatim>\<open>checkFile\<close>, \<^verbatim>\<open>writeFile\<close>, \<^verbatim>\<open>readFile\<close>, \<^verbatim>\<open>buildMonitor\<close> and the constant
  \<^verbatim>\<open>pollInterval\<close> are declared in files of the package other than the port's. They are
  parameters of the model, collected in a record over an arbitrary type \<open>'w\<close> of worlds:
  every theorem below holds for whatever the helpers do. \<open>passTime\<close> is how the world
  changes by itself while the caller sleeps (the kernel creating or removing the control
  files), and \<open>stopMonitor\<close> is what the cleaner returned by \<^verbatim>\<open>buildMonitor\<close> does.
  Durations and the clock are integers (nanoseconds, as \<^verbatim>\<open>time.Duration\<close>). Only waiting
  moves the clock of the model: the file operations themselves take no time.
\<close>

record 'w sysfs =
  checkFile :: "'w \<Rightarrow> string \<Rightarrow> bool"
  writeFile :: "'w \<Rightarrow> string \<Rightarrow> string \<Rightarrow> error option \<times> 'w"
  readFile :: "'w \<Rightarrow> string \<Rightarrow> error + string"
  buildMonitor :: "'w \<Rightarrow> string \<Rightarrow> int \<Rightarrow> (error + nat) \<times> 'w"
  stopMonitor :: "'w \<Rightarrow> nat \<Rightarrow> 'w"
  passTime :: "'w \<Rightarrow> int \<Rightarrow> 'w"
  pollInterval :: int

text \<open>
  A resetter is a closure of type \<^verbatim>\<open>func()\<close>. The two closures the package ever registers
  are the cleaner of \<^verbatim>\<open>SetValues\<close>, \<^verbatim>\<open>func() { close(killer) }\<close>, and the cleaner handed
  out by \<^verbatim>\<open>buildMonitor\<close>; they are represented by the channel, respectively the monitor,
  they act on.
\<close>

datatype hook = CloseKiller nat | MonitorCleaner nat

text \<open>
  The log: every call of \<^verbatim>\<open>writeFile\<close> (whether it succeeds or not) with its path and data,
  every call of a resetter, the assignment \<^verbatim>\<open>p.resetters = nil\<close>, and every call of
  \<^verbatim>\<open>buildMonitor\<close> with its path and buffer size.
\<close>

datatype event =
    WriteFile string string
  | Invoked hook
  | ResettersCleared
  | BuildMonitor string int

text \<open>
  The channels of one \<^verbatim>\<open>SetValues\<close> stream: \<^verbatim>\<open>killer\<close> is never sent to, so only whether
  it is closed matters; \<^verbatim>\<open>errch\<close> is its buffer and whether it is closed; \<open>running\<close> says
  that the goroutine has not returned yet.
\<close>

record stream =
  killer_closed :: bool
  errbuf :: "error list"
  errch_closed :: bool
  running :: bool

record 'w pstate =
  world :: 'w
  clock :: int
  resetters :: "hook list"
  streams :: "stream list"
  trace :: "event list"

definition timelimit :: int where
  "timelimit = 2 * 1000000000"

definition write_file ::
  "'w sysfs \<Rightarrow> string \<Rightarrow> string \<Rightarrow> 'w pstate \<Rightarrow> error option \<times> 'w pstate" where
  "write_file env name data s =
     (case writeFile env (world s) name data of
        (r, w) \<Rightarrow> (r, s\<lparr>world := w, trace := trace s @ [WriteFile name data]\<rparr>))"

definition sleep :: "'w sysfs \<Rightarrow> int \<Rightarrow> 'w pstate \<Rightarrow> 'w pstate" where
  "sleep env d s = s\<lparr>world := passTime env (world s) d, clock := clock s + d\<rparr>"

definition checkEnabled :: "'w sysfs \<Rightarrow> gport \<Rightarrow> 'w pstate \<Rightarrow> error option" where
  "checkEnabled env p s =
     (if checkFile env (world s) (folder p) then None else Some (ErrNotEnabled (port p)))"

definition IsEnabled :: "'w sysfs \<Rightarrow> gport \<Rightarrow> 'w pstate \<Rightarrow> bool" where
  "IsEnabled env p s = checkFile env (world s) (folder p)"

subsection \<open>The file waiter\<close>

datatype waitfor = Created | Removed

datatype handle = Resolved "error option" | Polling waitfor string int

text \<open>
  Modelled from the spec: \<^verbatim>\<open>awaitFileCreate\<close> is declared in a file that is not among the
  sources. It returns a handle at once and never assumes that the file exists already: a
  background task polls until the file exists or the deadline has passed. A handle is
  either resolved when it is handed out or stands for such a task (what it waits for, the
  path, the deadline on the clock).
\<close>

definition awaitFileCreate ::
  "'w sysfs \<Rightarrow> string \<Rightarrow> int \<Rightarrow> 'w pstate \<Rightarrow> error + handle" where
  "awaitFileCreate env name timeout s = Inr (Polling Created name (clock s + timeout))"

text \<open>
  Modelled from the spec: \<^verbatim>\<open>awaitFileRemove\<close> is declared in a file that is not among the
  sources. When the file is absent at the call the handle is resolved with success and no
  task is started; otherwise a background task polls until the file is gone or the
  deadline has passed.
\<close>

definition awaitFileRemove ::
  "'w sysfs \<Rightarrow> string \<Rightarrow> int \<Rightarrow> 'w pstate \<Rightarrow> error + handle" where
  "awaitFileRemove env name timeout s =
     (if \<not> checkFile env (world s) name then Inr (Resolved None)
      else Inr (Polling Removed name (clock s + timeout)))"

fun satisfied :: "'w sysfs \<Rightarrow> waitfor \<Rightarrow> string \<Rightarrow> 'w pstate \<Rightarrow> bool" where
  "satisfied env Created name s = checkFile env (world s) name"
| "satisfied env Removed name s = (\<not> checkFile env (world s) name)"

text \<open>
  Modelled from the spec: the background task of the waiter (in the same missing file), as
  the caller blocked on the handle sees it. It polls at the fixed interval until the
  condition is true (no error) or the deadline has passed (a timeout error). With an
  interval that is not positive the clock of the model stands still and the task may poll
  forever: then the result is \<open>None\<close>.
\<close>

partial_function (option) poll ::
  "'w sysfs \<Rightarrow> waitfor \<Rightarrow> string \<Rightarrow> int \<Rightarrow> 'w pstate \<Rightarrow> (error option \<times> 'w pstate) option" where
  "poll env k name deadline s =
     (if satisfied env k name s then Some (None, s)
      else if deadline \<le> clock s then Some (Some (ErrAwaitTimeout name), s)
      else poll env k name deadline (sleep env (pollInterval env) s))"

declare poll.simps [code]

text \<open>\<^verbatim>\<open>err := <-ch\<close> on the handle of the waiter.\<close>

definition receive ::
  "'w sysfs \<Rightarrow> handle \<Rightarrow> 'w pstate \<Rightarrow> (error option \<times> 'w pstate) option" where
  "receive env h s =
     (case h of Resolved r \<Rightarrow> Some (r, s) | Polling k name deadline \<Rightarrow> poll env k name deadline s)"

subsection \<open>Enable\<close>

datatype 'a iteration = Break 'a | Return error 'a | Continue 'a

text \<open>
  One pass through the body of the inner \<^verbatim>\<open>for\<close> of \<^verbatim>\<open>Enable\<close>. The \<^verbatim>\<open>select\<close> waits on
  two timers; the one due first wins. When both are due at the same instant Go may take
  either, and the model takes the timeout.
\<close>

definition writable_iter ::
  "'w sysfs \<Rightarrow> gport \<Rightarrow> string \<Rightarrow> int \<Rightarrow> 'w pstate \<Rightarrow> 'w pstate iteration" where
  "writable_iter env p fname start s =
     (let (ok, s1) =
            (if checkFile env (world s) fname
             then (case write_file env fname '' '' s of
                     (None, s') \<Rightarrow> (True, s')
                   | (Some err, s') \<Rightarrow> (\<not> IsPermission err, s'))
             else (False, s));
          remaining = timelimit - (clock s1 - start)
      in if ok then Break s1
         else if remaining \<le> pollInterval env
              then Return (ErrEnableTimeout (sport p) fname) (sleep env (max 0 remaining) s1)
              else Continue (sleep env (pollInterval env) s1))"

partial_function (option) writable_loop ::
  "'w sysfs \<Rightarrow> gport \<Rightarrow> string \<Rightarrow> int \<Rightarrow> 'w pstate \<Rightarrow> (error option \<times> 'w pstate) option" where
  "writable_loop env p fname start s =
     (case writable_iter env p fname start s of
        Break s' \<Rightarrow> Some (None, s')
      | Return err s' \<Rightarrow> Some (Some err, s')
      | Continue s' \<Rightarrow> writable_loop env p fname start s')"

declare writable_loop.simps [code]

fun writable_all ::
  "'w sysfs \<Rightarrow> gport \<Rightarrow> int \<Rightarrow> string list \<Rightarrow> 'w pstate \<Rightarrow> (error option \<times> 'w pstate) option" where
  "writable_all env p start [] s = Some (None, s)"
| "writable_all env p start (fname # rest) s =
     (case writable_loop env p fname start s of
        None \<Rightarrow> None
      | Some (Some err, s') \<Rightarrow> Some (Some err, s')
      | Some (None, s') \<Rightarrow> writable_all env p start rest s')"

definition Enable ::
  "'w sysfs \<Rightarrow> gport \<Rightarrow> 'w pstate \<Rightarrow> (error option \<times> 'w pstate) option" where
  "Enable env p s =
     (if checkFile env (world s) (folder p) then Some (None, s)
      else case write_file env (export p) (sport p) s of
             (Some err, s1) \<Rightarrow> Some (Some err, s1)
           | (None, s1) \<Rightarrow>
               (let start = clock s1 in
                case awaitFileCreate env (folder p) timelimit s1 of
                  Inl err \<Rightarrow> Some (Some err, s1)
                | Inr ch \<Rightarrow>
                    (case receive env ch s1 of
                       None \<Rightarrow> None
                     | Some (Some err, s2) \<Rightarrow> Some (Some err, s2)
                     | Some (None, s2) \<Rightarrow>
                         writable_all env p start [direction p, edge p] s2)))"

subsection \<open>Reset\<close>




subsection \<open>Mode and value\<close>

type_synonym GPIOMode = int

definition GPIOInput :: GPIOMode where "GPIOInput = 0"
definition GPIOOutput :: GPIOMode where "GPIOOutput = 1"
definition GPIOOutputLow :: GPIOMode where "GPIOOutputLow = 2"
definition GPIOOutputHigh :: GPIOMode where "GPIOOutputHigh = 3"

definition direction_in :: string where "direction_in = ''in''"
definition direction_out :: string where "direction_out = ''out''"
definition direction_outlow :: string where "direction_outlow = ''low''"
definition direction_outhi :: string where "direction_outhi = ''high''"


definition writeDirection :: "'w sysfs \<Rightarrow> gport \<Rightarrow> string \<Rightarrow> 'w pstate \<Rightarrow> error option \<times> 'w pstate" where
  "writeDirection env p d s = write_file env (direction p) d s"

definition readDirection :: "'w sysfs \<Rightarrow> gport \<Rightarrow> 'w pstate \<Rightarrow> error + string" where
  "readDirection env p s = readFile env (world s) (direction p)"


definition writeEdge :: "'w sysfs \<Rightarrow> gport \<Rightarrow> string \<Rightarrow> 'w pstate \<Rightarrow> error option \<times> 'w pstate" where
  "writeEdge env p e s = write_file env (edge p) e s"

text \<open>The \<^verbatim>\<open>switch\<close> of \<^verbatim>\<open>SetMode\<close>, its cases in the order of the source.\<close>

definition mode_direction :: "GPIOMode \<Rightarrow> error + string" where
  "mode_direction mode =
     (if mode = GPIOInput then Inr direction_in
      else if mode = GPIOOutput then Inr direction_out
      else if mode = GPIOOutputHigh then Inr direction_outhi
      else if mode = GPIOOutputLow then Inr direction_outlow
      else Inl ErrModeNotExist)"

definition SetMode :: "'w sysfs \<Rightarrow> gport \<Rightarrow> GPIOMode \<Rightarrow> 'w pstate \<Rightarrow> error option \<times> 'w pstate" where
  "SetMode env p mode s =
     (case checkEnabled env p s of
        Some err \<Rightarrow> (Some err, s)
      | None \<Rightarrow>
          (case mode_direction mode of
             Inl err \<Rightarrow> (Some err, s)
           | Inr d \<Rightarrow> writeDirection env p d s))"

definition IsOutput :: "'w sysfs \<Rightarrow> gport \<Rightarrow> 'w pstate \<Rightarrow> error + bool" where
  "IsOutput env p s =
     (case checkEnabled env p s of
        Some err \<Rightarrow> Inl err
      | None \<Rightarrow>
          (case readDirection env p s of
             Inl err \<Rightarrow> Inl err
           | Inr d \<Rightarrow> Inr (d \<noteq> ''in'')))"


subsection \<open>Streams\<close>

text \<open>
  \<^verbatim>\<open>SetValues\<close> makes the two channels, registers the cleaner and starts the goroutine. The
  result is the index of the new stream, which stands for the error channel handed back.
\<close>

definition new_stream :: stream where
  "new_stream = \<lparr> killer_closed = False, errbuf = [], errch_closed = False, running = True \<rparr>"

definition SetValues :: "'w sysfs \<Rightarrow> gport \<Rightarrow> 'w pstate \<Rightarrow> (error + nat) \<times> 'w pstate" where
  "SetValues env p s =
     (case checkEnabled env p s of
        Some err \<Rightarrow> (Inl err, s)
      | None \<Rightarrow>
          (let k = length (streams s)
           in (Inr k, s\<lparr>streams := streams s @ [new_stream],
                        resetters := resetters s @ [CloseKiller k]\<rparr>)))"






text \<open>
  \<^verbatim>\<open>Values\<close>: the result is the number of the monitor, which stands for the event channel
  handed back.
\<close>

definition Values :: "'w sysfs \<Rightarrow> gport \<Rightarrow> int \<Rightarrow> 'w pstate \<Rightarrow> (error + nat) \<times> 'w pstate" where
  "Values env p buffersize s =
     (case checkEnabled env p s of
        Some err \<Rightarrow> (Inl err, s)
      | None \<Rightarrow>
          (case writeEdge env p ''both'' s of
             (Some err, s1) \<Rightarrow> (Inl err, s1)
           | (None, s1) \<Rightarrow>
               (case buildMonitor env (world s1) (valuefile p) buffersize of
                  (Inl err, w) \<Rightarrow>
                    (Inl err, s1\<lparr>world := w,
                                 trace := trace s1 @ [BuildMonitor (valuefile p) buffersize]\<rparr>)
                | (Inr m, w) \<Rightarrow>
                    (Inr m, s1\<lparr>world := w,
                               trace := trace s1 @ [BuildMonitor (valuefile p) buffersize],
                               resetters := resetters s1 @ [MonitorCleaner m]\<rparr>))))"

subsection \<open>Sequential use of a stream\<close>


text \<open>
  The resetters of a state can all be called once without a panic when the kill channels
  they close exist, are open and are pairwise different.
\<close>

fun killers :: "hook list \<Rightarrow> nat list" where
  "killers [] = []"
| "killers (CloseKiller k # hs) = k # killers hs"
| "killers (MonitorCleaner m # hs) = killers hs"

definition hooks_ready :: "hook list \<Rightarrow> 'w pstate \<Rightarrow> bool" where
  "hooks_ready hs s =
     (distinct (killers hs) \<and>
      (\<forall>k \<in> set (killers hs). k < length (streams s) \<and> \<not> killer_closed (streams s ! k)))"

subsection \<open>A simulated sysfs\<close>

text \<open>
  A small world to run the operations in: the world is the list of the paths that exist.
  Writing to the export file creates the folder of the port and its control files at once,
  writing to the unexport file removes them; every other write answers \<open>wr\<close> of the path
  and the data, and every read answers \<open>rd\<close> of the path.
\<close>

definition sim ::
  "gport \<Rightarrow> (string \<Rightarrow> string \<Rightarrow> error option) \<Rightarrow> (string \<Rightarrow> error + string) \<Rightarrow> int
     \<Rightarrow> string list sysfs" where
  "sim p wr rd interval =
     \<lparr> checkFile = (\<lambda>w name. name \<in> set w),
       writeFile = (\<lambda>w name data.
          if name = export p then (None, [folder p, direction p, edge p, valuefile p])
          else if name = unexport p then (None, [])
          else (wr name data, w)),
       readFile = (\<lambda>w name. rd name),
       buildMonitor = (\<lambda>w name buffersize. (Inr 0, w)),
       stopMonitor = (\<lambda>w m. w),
       passTime = (\<lambda>w d. w),
       pollInterval = interval \<rparr>"

text \<open>The port that \<^verbatim>\<open>newGPIO\<close> builds for line 17 under the root \<^verbatim>\<open>/sys/class/gpio\<close>.\<close>

definition gpio17 :: gport where
  "gpio17 =
     \<lparr> port = 17, sport = ''17'', folder = ''/sys/class/gpio/gpio17'',
       valuefile = ''/sys/class/gpio/gpio17/value'',
       direction = ''/sys/class/gpio/gpio17/direction'',
       edge = ''/sys/class/gpio/gpio17/edge'',
       export = ''/sys/class/gpio/export'',
       unexport = ''/sys/class/gpio/unexport'' \<rparr>"

definition half_second :: int where
  "half_second = 500000000"

text \<open>Every write succeeds and the direction file reads \<^verbatim>\<open>in\<close>.\<close>

definition plain :: "string list sysfs" where
  "plain = sim gpio17 (\<lambda>name data. None) (\<lambda>name. Inr ''in'') half_second"

text \<open>Every write to a control file fails, with an error that is not a permission error.\<close>

definition rejecting :: "string list sysfs" where
  "rejecting =
     sim gpio17 (\<lambda>name data. Some (ErrOS ''invalid argument'')) (\<lambda>name. Inr ''in'') half_second"

text \<open>Every write to a control file fails with a permission error.\<close>

definition forbidding :: "string list sysfs" where
  "forbidding =
     sim gpio17 (\<lambda>name data. Some (ErrPermission ''permission denied'')) (\<lambda>name. Inr ''in'')
       half_second"

text \<open>Writing \<^verbatim>\<open>1\<close> to the value file fails; the direction file holds something odd.\<close>

definition stuck_low :: "string list sysfs" where
  "stuck_low =
     sim gpio17
       (\<lambda>name data. if name = valuefile gpio17 \<and> data = ''1''
                     then Some (ErrOS ''input/output error'') else None)
       (\<lambda>name. Inr ''bogus'') half_second"

definition fresh :: "string list pstate" where
  "fresh = \<lparr> world = [], clock = 0, resetters = [], streams = [], trace = [] \<rparr>"

definition claimed :: "string list pstate" where
  "claimed = fresh\<lparr>world := [folder gpio17, direction gpio17, edge gpio17, valuefile gpio17]\<rparr>"

text \<open>The claimed port with one \<^verbatim>\<open>SetValues\<close> stream started.\<close>

definition streaming :: "string list pstate" where
  "streaming = claimed\<lparr>streams := [new_stream], resetters := [CloseKiller 0]\<rparr>"

text \<open>The port after \<^verbatim>\<open>Enable\<close> has claimed it in the simulated sysfs.\<close>

definition enabled_once :: "string list pstate" where
  "enabled_once =
     claimed\<lparr>trace := [WriteFile (export gpio17) ''17'', WriteFile (direction gpio17) '' '',
                       WriteFile (edge gpio17) '' '']\<rparr>"

text \<open>The streaming port after the cleaner of its stream has been called.\<close>

definition cancelled :: "string list pstate" where
  "cancelled = streaming\<lparr>streams := [new_stream\<lparr>killer_closed := True\<rparr>]\<rparr>"

section \<open>Properties\<close>

subsection \<open>What the operations leave alone\<close>

lemma write_file_fields:
  "write_file env name d s = (r, s1) \<Longrightarrow>
     trace s1 = trace s @ [WriteFile name d] \<and> resetters s1 = resetters s \<and>
     streams s1 = streams s \<and> clock s1 = clock s \<and>
     r = fst (writeFile env (world s) name d) \<and> world s1 = snd (writeFile env (world s) name d)"
  by (auto simp: write_file_def split: prod.splits)

















subsection \<open>Termination of the waiter\<close>




subsection \<open>Resetters that can be called\<close>

text \<open>
  \<open>hooks_ready\<close> holds of a new port, whose list of resetters is empty, and \<^verbatim>\<open>SetValues\<close> and
  \<^verbatim>\<open>Values\<close> keep it. In such a state \<^verbatim>\<open>Reset\<close> calls every resetter without a panic.
\<close>

lemma hooks_ready_trace [simp]:
  "hooks_ready hs (s\<lparr>trace := t\<rparr>) = hooks_ready hs s"
  by (simp add: hooks_ready_def)



lemma killers_append: "killers (hs @ hs') = killers hs @ killers hs'"
  by (induction hs rule: killers.induct) simp_all

lemma hooks_ready_SetValues:
  assumes "hooks_ready (resetters s) s" and "SetValues env p s = (Inr k, s1)"
  shows "hooks_ready (resetters s1) s1"
proof -
  from assms(2) have k: "k = length (streams s)"
    and r: "resetters s1 = resetters s @ [CloseKiller k]"
    and st: "streams s1 = streams s @ [new_stream]"
    by (auto simp: SetValues_def Let_def split: option.splits)
  from assms(1) have d: "distinct (killers (resetters s))"
    and b: "\<forall>j \<in> set (killers (resetters s)). j < length (streams s) \<and>
              \<not> killer_closed (streams s ! j)"
    by (simp_all add: hooks_ready_def)
  from b k have "k \<notin> set (killers (resetters s))" by auto
  with d b show ?thesis
    by (auto simp: hooks_ready_def r st k killers_append nth_append new_stream_def)
qed

lemma hooks_ready_Values:
  assumes "hooks_ready (resetters s) s" and "Values env p n s = (r, s1)"
  shows "hooks_ready (resetters s1) s1"
proof -
  from assms(2) have "streams s1 = streams s \<and>
      (resetters s1 = resetters s \<or> (\<exists>m. resetters s1 = resetters s @ [MonitorCleaner m]))"
    by (auto simp: Values_def writeEdge_def split: option.splits prod.splits sum.splits
             dest: write_file_fields)
  with assms(1) show ?thesis by (auto simp: hooks_ready_def killers_append)
qed




subsection \<open>The stream goroutine against the sequential run\<close>




subsection \<open>Running the simulated sysfs\<close>

lemmas sim_eval =
  gpio17_def sim_def plain_def rejecting_def forbidding_def stuck_low_def fresh_def claimed_def
  streaming_def enabled_once_def cancelled_def
  new_stream_def half_second_def timelimit_def write_file_def sleep_def checkEnabled_def
  IsEnabled_def

lemma Enable_fresh:
  "Enable plain gpio17 fresh = Some (None, enabled_once)"
  by (simp add: sim_eval Enable_def awaitFileCreate_def receive_def poll.simps
        writable_loop.simps writable_iter_def)








subsection \<open>Enable\<close>

text \<open>
  C5. \<^verbatim>\<open>Enable\<close> is idempotent: on a port that is already enabled (its folder exists) it
  returns success at once and leaves the state as it is, so nothing is written to the
  export file; calling it twice in a row succeeds both times and the port is left as one
  call leaves it.
\<close>

theorem Enable_idempotent:
  assumes "IsEnabled env p s"
  shows "Enable env p s = Some (None, s) \<and>
         Option.bind (Enable env p s) (\<lambda>r. Enable env p (snd r)) = Some (None, s)"
  using assms by (simp add: Enable_def IsEnabled_def)

theorem Enable_idempotent_witness:
  "Enable plain gpio17 fresh = Some (None, enabled_once) \<and>
   IsEnabled plain gpio17 enabled_once \<and>
   Enable plain gpio17 enabled_once = Some (None, enabled_once)"
  using Enable_idempotent [of plain gpio17 enabled_once] Enable_fresh
  by (simp add: sim_eval)


text \<open>
  The readiness test of \<^verbatim>\<open>Enable\<close> on a control file that exists, run in the simulated
  sysfs. When the placeholder write fails with an error that is not a permission error
  (here: invalid argument), the loop leaves at once with success; when it fails with a
  permission error, the loop keeps polling until the time limit and ends with the timeout
  error.
\<close>

theorem readiness_counterexample:
  "checkFile rejecting (world claimed) (direction gpio17) \<and>
   fst (writeFile rejecting (world claimed) (direction gpio17) '' '')
     = Some (ErrOS ''invalid argument'') \<and>
   \<not> IsPermission (ErrOS ''invalid argument'') \<and>
   writable_loop rejecting gpio17 (direction gpio17) 0 claimed
     = Some (None, claimed\<lparr>trace := [WriteFile (direction gpio17) '' '']\<rparr>) \<and>
   checkFile forbidding (world claimed) (direction gpio17) \<and>
   fst (writeFile forbidding (world claimed) (direction gpio17) '' '')
     = Some (ErrPermission ''permission denied'') \<and>
   IsPermission (ErrPermission ''permission denied'') \<and>
   map_option fst
     (writable_loop forbidding gpio17 (direction gpio17) 0 claimed)
     = Some (Some (ErrEnableTimeout ''17'' (direction gpio17)))"
  by (simp add: sim_eval writable_loop.simps writable_iter_def)


text \<open>
  C1 (amended). In every pass of the readiness loop of \<^verbatim>\<open>Enable\<close> in which the control
  file exists, the placeholder write of one blank is attempted. When the write succeeds or
  fails with anything but a permission error, the file counts as ready and the loop stops
  polling it with success. When the write fails with a permission error the file counts as
  not ready yet: the loop fails with the timeout error if no more than one poll interval
  of the time limit is left, and keeps polling after one poll interval otherwise.
\<close>

theorem readiness_classification:
  assumes "checkFile env (world s) fname"
  shows "\<exists>r s1. write_file env fname '' '' s = (r, s1) \<and>
           trace s1 = trace s @ [WriteFile fname '' ''] \<and>
           ((r = None \<or> (\<exists>e. r = Some e \<and> \<not> IsPermission e)) \<longrightarrow>
              writable_loop env p fname start s = Some (None, s1)) \<and>
           ((\<exists>e. r = Some e \<and> IsPermission e) \<longrightarrow>
              writable_loop env p fname start s =
                (if timelimit - (clock s1 - start) \<le> pollInterval env
                 then Some (Some (ErrEnableTimeout (sport p) fname),
                            sleep env (max 0 (timelimit - (clock s1 - start))) s1)
                 else writable_loop env p fname start (sleep env (pollInterval env) s1)))"
proof -
  obtain r s1 where w: "write_file env fname '' '' s = (r, s1)"
    by (cases "write_file env fname '' '' s")
  have t: "trace s1 = trace s @ [WriteFile fname '' '']"
    using write_file_fields [OF w] by simp
  have a: "writable_loop env p fname start s = Some (None, s1)"
    if "r = None \<or> (\<exists>e. r = Some e \<and> \<not> IsPermission e)"
    using that assms w by (subst writable_loop.simps) (auto simp: writable_iter_def)
  have b: "writable_loop env p fname start s =
             (if timelimit - (clock s1 - start) \<le> pollInterval env
              then Some (Some (ErrEnableTimeout (sport p) fname),
                         sleep env (max 0 (timelimit - (clock s1 - start))) s1)
              else writable_loop env p fname start (sleep env (pollInterval env) s1))"
    if "\<exists>e. r = Some e \<and> IsPermission e"
    using that assms w by (subst writable_loop.simps) (auto simp: writable_iter_def Let_def)
  from w t a b show ?thesis by blast
qed

theorem readiness_classification_witness:
  "checkFile rejecting (world claimed) (edge gpio17) \<and>
   writable_loop rejecting gpio17 (edge gpio17) 0 claimed
     = Some (None, claimed\<lparr>trace := [WriteFile (edge gpio17) '' '']\<rparr>) \<and>
   checkFile forbidding (world claimed) (edge gpio17) \<and>
   writable_loop forbidding gpio17 (edge gpio17) 0 claimed
     = writable_loop forbidding gpio17 (edge gpio17) 0
         (claimed\<lparr>clock := half_second, trace := [WriteFile (edge gpio17) '' '']\<rparr>)"
  using readiness_classification
          [of rejecting claimed "edge gpio17" gpio17 0]
        readiness_classification
          [of forbidding claimed "edge gpio17" gpio17 0]
  by (simp add: sim_eval)


subsection \<open>Reset\<close>




subsection \<open>SetMode and IsOutput\<close>

text \<open>
  C6. \<^verbatim>\<open>SetMode\<close> on a port that is not enabled returns the not-enabled error and writes
  nothing. On an enabled port it writes exactly the token \<^verbatim>\<open>in\<close> for \<^verbatim>\<open>GPIOInput\<close>,
  \<^verbatim>\<open>out\<close> for \<^verbatim>\<open>GPIOOutput\<close>, \<^verbatim>\<open>low\<close> for \<^verbatim>\<open>GPIOOutputLow\<close> and \<^verbatim>\<open>high\<close> for
  \<^verbatim>\<open>GPIOOutputHigh\<close> to the direction file, and for every other mode value it returns the
  invalid-mode error and writes nothing.
\<close>

theorem SetMode_tokens:
  "(\<not> IsEnabled env p s \<longrightarrow> SetMode env p mode s = (Some (ErrNotEnabled (port p)), s)) \<and>
   (IsEnabled env p s \<longrightarrow>
      (mode = GPIOInput \<longrightarrow> SetMode env p mode s = write_file env (direction p) ''in'' s) \<and>
      (mode = GPIOOutput \<longrightarrow> SetMode env p mode s = write_file env (direction p) ''out'' s) \<and>
      (mode = GPIOOutputLow \<longrightarrow> SetMode env p mode s = write_file env (direction p) ''low'' s) \<and>
      (mode = GPIOOutputHigh \<longrightarrow> SetMode env p mode s = write_file env (direction p) ''high'' s) \<and>
      (mode \<notin> {GPIOInput, GPIOOutput, GPIOOutputLow, GPIOOutputHigh} \<longrightarrow>
         SetMode env p mode s = (Some ErrModeNotExist, s))) \<and>
   (\<forall>d. trace (snd (write_file env (direction p) d s)) = trace s @ [WriteFile (direction p) d])"
  by (auto simp: SetMode_def IsEnabled_def checkEnabled_def mode_direction_def writeDirection_def
        GPIOInput_def GPIOOutput_def GPIOOutputLow_def GPIOOutputHigh_def
        direction_in_def direction_out_def direction_outlow_def direction_outhi_def
        write_file_def split: prod.splits)

theorem SetMode_tokens_witness:
  "\<not> IsEnabled plain gpio17 fresh \<and>
   SetMode plain gpio17 GPIOOutputHigh fresh = (Some (ErrNotEnabled 17), fresh) \<and>
   IsEnabled plain gpio17 claimed \<and>
   SetMode plain gpio17 GPIOInput claimed
     = (None, claimed\<lparr>trace := [WriteFile (direction gpio17) ''in'']\<rparr>) \<and>
   SetMode plain gpio17 GPIOOutput claimed
     = (None, claimed\<lparr>trace := [WriteFile (direction gpio17) ''out'']\<rparr>) \<and>
   SetMode plain gpio17 GPIOOutputLow claimed
     = (None, claimed\<lparr>trace := [WriteFile (direction gpio17) ''low'']\<rparr>) \<and>
   SetMode plain gpio17 GPIOOutputHigh claimed
     = (None, claimed\<lparr>trace := [WriteFile (direction gpio17) ''high'']\<rparr>) \<and>
   (7::int) \<notin> {GPIOInput, GPIOOutput, GPIOOutputLow, GPIOOutputHigh} \<and>
   SetMode plain gpio17 7 claimed = (Some ErrModeNotExist, claimed)"
  using SetMode_tokens [of plain gpio17 fresh GPIOOutputHigh]
        SetMode_tokens [of plain gpio17 claimed GPIOInput]
        SetMode_tokens [of plain gpio17 claimed GPIOOutput]
        SetMode_tokens [of plain gpio17 claimed GPIOOutputLow]
        SetMode_tokens [of plain gpio17 claimed GPIOOutputHigh]
        SetMode_tokens [of plain gpio17 claimed 7]
  by (simp add: sim_eval GPIOInput_def GPIOOutput_def GPIOOutputLow_def GPIOOutputHigh_def)


text \<open>
  C10. On an enabled port whose direction file reads as the string \<open>d\<close>, \<^verbatim>\<open>IsOutput\<close>
  answers true exactly when \<open>d\<close> is not \<^verbatim>\<open>in\<close>, and returns no error: any other content,
  however odd, is reported as output. (The older copy of the function in \<^verbatim>\<open>gpio.go\<close> has
  the same text.)
\<close>

theorem IsOutput_not_in:
  assumes "IsEnabled env p s" and "readFile env (world s) (direction p) = Inr d"
  shows "IsOutput env p s = Inr (d \<noteq> ''in'')"
  using assms by (simp add: IsOutput_def IsEnabled_def checkEnabled_def readDirection_def)

theorem IsOutput_not_in_witness:
  "IsEnabled stuck_low gpio17 claimed \<and>
   readFile stuck_low (world claimed) (direction gpio17) = Inr ''bogus'' \<and>
   IsOutput stuck_low gpio17 claimed = Inr True \<and>
   IsEnabled plain gpio17 claimed \<and>
   readFile plain (world claimed) (direction gpio17) = Inr ''in'' \<and>
   IsOutput plain gpio17 claimed = Inr False"
  using IsOutput_not_in [of stuck_low gpio17 claimed "''bogus''"]
        IsOutput_not_in [of plain gpio17 claimed "''in''"]
  by (simp add: sim_eval)


subsection \<open>The file waiter\<close>

text \<open>
  C9. When the file is already absent at the call, \<^verbatim>\<open>awaitFileRemove\<close> hands out a handle
  that is resolved with success, with no background task behind it, and receiving from it
  returns at once. \<^verbatim>\<open>awaitFileCreate\<close> does not take such a shortcut when the file exists
  already: its handle stands for a polling task.
\<close>

theorem awaitFileRemove_absent:
  "(\<not> checkFile env (world s) name \<longrightarrow>
      awaitFileRemove env name timeout s = Inr (Resolved None) \<and>
      receive env (Resolved None) s = Some (None, s)) \<and>
   (checkFile env (world s) name \<longrightarrow>
      awaitFileCreate env name timeout s = Inr (Polling Created name (clock s + timeout)))"
  by (simp add: awaitFileRemove_def awaitFileCreate_def receive_def)

theorem awaitFileRemove_absent_witness:
  "\<not> checkFile plain (world fresh) (folder gpio17) \<and>
   awaitFileRemove plain (folder gpio17) timelimit fresh = Inr (Resolved None) \<and>
   receive plain (Resolved None) fresh = Some (None, fresh) \<and>
   checkFile plain (world claimed) (folder gpio17) \<and>
   awaitFileCreate plain (folder gpio17) timelimit claimed
     = Inr (Polling Created (folder gpio17) timelimit)"
  using awaitFileRemove_absent [of plain fresh "folder gpio17" timelimit]
        awaitFileRemove_absent [of plain claimed "folder gpio17" timelimit]
  by (simp add: sim_eval)


subsection \<open>Streams\<close>

















end
